theory Spec2Isabelle
  imports Main "HOL-Library.Word"
begin

unbundle bit_operations_syntax

section \<open>Machine words, constants and error codes\<close>

type_synonym u32 = "32 word"
type_synonym envid_t = "32 word"

text \<open>
  Modelled from the spec: the header inc/memlayout.h is missing. UTOP is the spec's fixed
  user/kernel split, also the "no page" sentinel; it carries the value of the x86 port the
  source is written for.
\<close>

definition UTOP :: u32 where
  "UTOP = 0xeec00000"

text \<open>
  Modelled from the spec: the header inc/mmu.h is missing. PGSIZE is the page size of the
  spec's "page-aligned".
\<close>

definition PGSIZE :: u32 where
  "PGSIZE = 4096"

text \<open>Modelled from the spec: inc/mmu.h is missing. The permission bit "present".\<close>

definition PTE_P :: u32 where
  "PTE_P = 1"

text \<open>Modelled from the spec: inc/mmu.h is missing. The permission bit "writable".\<close>

definition PTE_W :: u32 where
  "PTE_W = 2"

text \<open>Modelled from the spec: inc/mmu.h is missing. The permission bit "user".\<close>

definition PTE_U :: u32 where
  "PTE_U = 4"

text \<open>
  Modelled from the spec: inc/error.h is missing. The spec lists the closed enumeration of
  error codes; a handler returning \<open>-E_X\<close> is \<open>Inl E_X\<close> here, a non-negative result
  \<open>v\<close> is \<open>Inr v\<close>.
\<close>

datatype error = E_BAD_ENV | E_INVAL | E_NO_FREE_ENV | E_NO_MEM | E_IPC_NOT_RECV | E_RETRY

type_synonym retval = "error + u32"

section \<open>Environments and kernel state\<close>

text \<open>
  Modelled from the spec: inc/env.h is missing. The statuses are the four of the spec's
  data model.
\<close>

datatype env_status = ENV_FREE | ENV_RUNNABLE | ENV_NOT_RUNNABLE | ENV_DYING

text \<open>
  Modelled from the spec: inc/trap.h is missing. Of the saved context the source names only
  \<open>env_tf.tf_regs.reg_eax\<close>, the spec's "return value" register; the other registers
  are kept as opaque lists.
\<close>

record PushRegs =
  reg_eax :: u32
  reg_rest :: "u32 list"

record Trapframe =
  tf_regs :: PushRegs
  tf_rest :: "u32 list"

text \<open>
  Modelled from the spec: inc/mmu.h is missing. A page directory maps a directory index to
  a page table when one is present; a page table maps a table index to a page table entry
  (a word, as \<open>*pte\<close> in the source: the physical address of the frame and the permission
  bits; 0 when clear).
\<close>

type_synonym pgdir_t = "u32 \<Rightarrow> (u32 \<Rightarrow> u32) option"

text \<open>
  Modelled from the spec: inc/env.h is missing. The fields are those the source reads and
  writes, and the parent handle of the spec's data model.
\<close>

record Env =
  env_tf :: Trapframe
  env_id :: envid_t
  env_parent_id :: envid_t
  env_status :: env_status
  env_pgdir :: pgdir_t
  env_pgfault_upcall :: u32
  env_ipc_recving :: bool
  env_ipc_dstva :: u32
  env_ipc_value :: u32
  env_ipc_from :: envid_t
  env_ipc_perm :: u32

text \<open>
  The kernel state that the handlers read and write through \<open>curenv\<close>, \<open>struct Env *\<close> and
  \<open>struct Page *\<close>: the environment table (a pointer to an environment is its table key,
  the handle), the current environment, the physical frame allocator (free list and
  reference counts; a pointer to a page is the physical page number) and the contents of
  physical memory, a byte at each offset of each frame.
\<close>

record kstate =
  envs :: "envid_t \<Rightarrow> Env"
  curenv :: envid_t
  page_free_list :: "u32 list"
  pp_ref :: "u32 \<Rightarrow> 16 word"
  phys_mem :: "u32 \<Rightarrow> u32 \<Rightarrow> 8 word"

text \<open>A write through a \<open>struct Env *\<close>: the record at the key is replaced.\<close>

definition env_update :: "kstate \<Rightarrow> envid_t \<Rightarrow> (Env \<Rightarrow> Env) \<Rightarrow> kstate" where
  "env_update s e f = s\<lparr>envs := (envs s)(e := f (envs s e))\<rparr>"

section \<open>The capability check\<close>

text \<open>
  Modelled from the spec: kern/env.c is missing. The spec authorizes a caller to affect
  itself or a strict descendant; \<open>descendant es a d\<close> says that \<open>d\<close> is a strict
  descendant of \<open>a\<close> by the parent handles of the table \<open>es\<close>.
\<close>

inductive descendant :: "(envid_t \<Rightarrow> Env) \<Rightarrow> envid_t \<Rightarrow> envid_t \<Rightarrow> bool"
  for es :: "envid_t \<Rightarrow> Env" and a :: envid_t where
  child: "env_parent_id (es d) = a \<Longrightarrow> descendant es a d"
| further: "descendant es a (env_parent_id (es d)) \<Longrightarrow> descendant es a d"

code_pred descendant .

text \<open>
  Modelled from the spec: kern/env.c (envid2env) is missing. The spec: it resolves a handle
  to a live environment record and, when asked, verifies that the caller is authorized to
  affect it (itself or a strict descendant); stale and FREE-slot handles do not resolve.
\<close>

definition envid2env :: "kstate \<Rightarrow> envid_t \<Rightarrow> bool \<Rightarrow> envid_t option" where
  "envid2env s envid checkperm =
     (if env_status (envs s envid) = ENV_FREE \<or> env_id (envs s envid) \<noteq> envid then None
      else if checkperm \<and> envid \<noteq> curenv s \<and> \<not> descendant (envs s) (curenv s) envid then None
      else Some envid)"

section \<open>Physical frames and page tables\<close>

text \<open>
  Modelled from the spec: inc/mmu.h is missing. The index of the page table of an address
  in the page directory.
\<close>

definition PDX :: "u32 \<Rightarrow> u32" where
  "PDX va = drop_bit 22 va AND 0x3FF"

text \<open>
  Modelled from the spec: inc/mmu.h is missing. The index of the entry of an address in
  its page table.
\<close>

definition PTX :: "u32 \<Rightarrow> u32" where
  "PTX va = drop_bit 12 va AND 0x3FF"

text \<open>
  Modelled from the spec: kern/pmap.h is missing. The physical address of a frame, as it
  stands in a page table entry.
\<close>

definition page2pa :: "u32 \<Rightarrow> u32" where
  "page2pa pp = push_bit 12 pp"

text \<open>Modelled from the spec: kern/pmap.h is missing. The frame of a physical address.\<close>

definition pa2page :: "u32 \<Rightarrow> u32" where
  "pa2page pa = drop_bit 12 pa"

text \<open>
  Modelled from the spec: kern/pmap.c (page_alloc) is missing. The spec: one frame is
  acquired from the allocator, or the call fails with out-of-memory. The frame leaves the
  free list with a reference count of 0; counting the reference is the work of the
  insertion.
\<close>

definition page_alloc :: "kstate \<Rightarrow> (u32 \<times> kstate) option" where
  "page_alloc s =
     (case page_free_list s of
        [] \<Rightarrow> None
      | pp # rest \<Rightarrow> Some (pp, s\<lparr>page_free_list := rest, pp_ref := (pp_ref s)(pp := 0)\<rparr>))"

text \<open>
  Modelled from the spec: kern/pmap.c (page_free) is missing. The release of a frame: it
  goes back on the free list.
\<close>

definition page_free :: "kstate \<Rightarrow> u32 \<Rightarrow> kstate" where
  "page_free s pp = s\<lparr>page_free_list := pp # page_free_list s\<rparr>"

text \<open>
  Modelled from the spec: kern/pmap.c (page_decref) is missing. The spec: a frame is freed
  if and only if its reference count reaches zero.
\<close>

definition page_decref :: "kstate \<Rightarrow> u32 \<Rightarrow> kstate" where
  "page_decref s pp =
     (let s1 = s\<lparr>pp_ref := (pp_ref s)(pp := pp_ref s pp - 1)\<rparr>
      in if pp_ref s1 pp = 0 then page_free s1 pp else s1)"

text \<open>
  Modelled from the spec: kern/pmap.c (page_lookup) is missing. The spec: the frame
  currently mapped at an address, or absence. The result is the frame and the entry found
  (\<open>*pte_store\<close>), or \<open>None\<close> for NULL.
\<close>

definition page_lookup :: "pgdir_t \<Rightarrow> u32 \<Rightarrow> (u32 \<times> u32) option" where
  "page_lookup pgdir va =
     (case pgdir (PDX va) of
        None \<Rightarrow> None
      | Some pt \<Rightarrow>
          if pt (PTX va) AND PTE_P = 0 then None
          else Some (pa2page (pt (PTX va)), pt (PTX va)))"

text \<open>
  The assignment \<open>*pte = v\<close> of the source, to the entry for \<open>va\<close> in the directory of
  \<open>env\<close>.
\<close>

definition pte_store :: "kstate \<Rightarrow> envid_t \<Rightarrow> u32 \<Rightarrow> u32 \<Rightarrow> kstate" where
  "pte_store s env va v =
     env_update s env (\<lambda>e. e\<lparr>env_pgdir :=
       (case env_pgdir e (PDX va) of
          None \<Rightarrow> env_pgdir e
        | Some pt \<Rightarrow> (env_pgdir e)(PDX va := Some (pt(PTX va := v))))\<rparr>)"

text \<open>
  Modelled from the spec: kern/pmap.c (pgdir_walk, called to create) is missing. The
  source's comments: out-of-memory arises when there is no memory "to allocate any
  necessary page tables". A missing page table takes a frame of its own.
\<close>

definition pgdir_walk_create :: "kstate \<Rightarrow> envid_t \<Rightarrow> u32 \<Rightarrow> kstate option" where
  "pgdir_walk_create s env va =
     (case env_pgdir (envs s env) (PDX va) of
        Some pt \<Rightarrow> Some s
      | None \<Rightarrow>
          (case page_alloc s of
             None \<Rightarrow> None
           | Some (pp, s1) \<Rightarrow>
               Some (env_update (s1\<lparr>pp_ref := (pp_ref s1)(pp := 1)\<rparr>) env
                 (\<lambda>e. e\<lparr>env_pgdir := (env_pgdir e)(PDX va := Some (\<lambda>i. 0))\<rparr>))))"

text \<open>
  Modelled from the spec: kern/pmap.c (page_remove) is missing. The spec: the mapping is
  cleared and the frame's reference count decremented; nothing happens where nothing is
  mapped.
\<close>

definition page_remove :: "kstate \<Rightarrow> envid_t \<Rightarrow> u32 \<Rightarrow> kstate" where
  "page_remove s env va =
     (case page_lookup (env_pgdir (envs s env)) va of
        None \<Rightarrow> s
      | Some (pp, pte) \<Rightarrow> pte_store (page_decref s pp) env va 0)"

text \<open>
  Modelled from the spec: kern/pmap.c (page_insert) is missing. The spec: the frame is
  inserted at the address with the permission; a previous mapping is replaced and its
  frame's reference count decremented; the insertion fails with out-of-memory, and
  without mutation, when the page table cannot be had.
\<close>

definition page_insert :: "kstate \<Rightarrow> envid_t \<Rightarrow> u32 \<Rightarrow> u32 \<Rightarrow> u32 \<Rightarrow> kstate option" where
  "page_insert s env pp va perm =
     (case pgdir_walk_create s env va of
        None \<Rightarrow> None
      | Some s1 \<Rightarrow>
          (let s2 = s1\<lparr>pp_ref := (pp_ref s1)(pp := pp_ref s1 pp + 1)\<rparr>;
               s3 = page_remove s2 env va
           in Some (pte_store s3 env va (page2pa pp OR perm OR PTE_P))))"

text \<open>
  \<open>memset(page2kva(pag), 0, PGSIZE)\<close> of the source: every byte of the frame is 0
  afterwards.
\<close>

definition memset_page :: "kstate \<Rightarrow> u32 \<Rightarrow> kstate" where
  "memset_page s pp = s\<lparr>phys_mem := (phys_mem s)(pp := (\<lambda>off. 0))\<rparr>"

text \<open>
  Modelled from the spec: kern/pmap.c (user_mem_check) is missing. The pages that contain
  a byte of the region \<open>[va, va+len)\<close>, by their base addresses: none when \<open>len\<close> is 0.
\<close>

definition range_pages :: "u32 \<Rightarrow> u32 \<Rightarrow> u32 list" where
  "range_pages va len =
     (if len = 0 then []
      else map (\<lambda>i. word_of_nat i * PGSIZE)
             [unat va div unat PGSIZE ..< (unat va + unat len - 1) div unat PGSIZE + 1])"

text \<open>
  Modelled from the spec: kern/pmap.c (user_mem_check) is missing. The spec: the memory
  region is readable; here every page of the region is mapped with the permissions asked
  for.
\<close>

definition user_mem_check :: "pgdir_t \<Rightarrow> u32 \<Rightarrow> u32 \<Rightarrow> u32 \<Rightarrow> bool" where
  "user_mem_check pgdir va len perm =
     list_all (\<lambda>p. case page_lookup pgdir p of
                     None \<Rightarrow> False
                   | Some (pp, pte) \<Rightarrow> pte AND perm = perm)
       (range_pages va len)"

text \<open>
  Modelled from the spec: kern/env.c (env_destroy) is missing. The spec gives of the
  teardown the effect that the handle no longer resolves. Destroying the current
  environment does not return (\<open>Inl\<close>: the caller is terminated); destroying another one
  returns (\<open>Inr\<close>).
\<close>

definition env_destroy :: "kstate \<Rightarrow> envid_t \<Rightarrow> kstate + kstate" where
  "env_destroy s e =
     (let s1 = env_update s e (\<lambda>x. x\<lparr>env_status := ENV_FREE\<rparr>)
      in if e = curenv s then Inl s1 else Inr s1)"

text \<open>
  Modelled from the spec: kern/pmap.c (user_mem_assert) is missing. The spec: a region that
  is not readable to user code ends in the termination of the environment checked, not
  in an error result.
\<close>

definition user_mem_assert :: "kstate \<Rightarrow> envid_t \<Rightarrow> u32 \<Rightarrow> u32 \<Rightarrow> u32 \<Rightarrow> kstate + kstate" where
  "user_mem_assert s env va len perm =
     (if user_mem_check (env_pgdir (envs s env)) va len (perm OR PTE_U) then Inr s
      else env_destroy s env)"

text \<open>
  A kernel-mode read of one byte at a virtual address, under the page directory of the
  current environment: \<open>None\<close> when the page is not mapped (the read faults inside the
  kernel).
\<close>

definition kread_byte :: "kstate \<Rightarrow> u32 \<Rightarrow> 8 word option" where
  "kread_byte s va =
     (case page_lookup (env_pgdir (envs s (curenv s))) va of
        None \<Rightarrow> None
      | Some (pp, pte) \<Rightarrow> Some (phys_mem s pp (va AND 0xFFF)))"

text \<open>
  A kernel-mode read of \<open>n\<close> bytes from \<open>va\<close> on: it faults when any of the bytes lies
  in a page that is not mapped, so a region that runs over a page boundary needs both
  pages.
\<close>

fun kread_bytes :: "kstate \<Rightarrow> u32 \<Rightarrow> nat \<Rightarrow> 8 word list option" where
  "kread_bytes s va 0 = Some []"
| "kread_bytes s va (Suc n) =
     (case kread_byte s va of
        None \<Rightarrow> None
      | Some b \<Rightarrow>
          (case kread_bytes s (va + 1) n of
             None \<Rightarrow> None
           | Some bs \<Rightarrow> Some (b # bs)))"

text \<open>The 32-bit words of a byte sequence, least significant byte first.\<close>

fun le_words :: "8 word list \<Rightarrow> u32 list" where
  "le_words (a # b # c # d # r) =
     (ucast a OR push_bit 8 (ucast b) OR push_bit 16 (ucast c) OR push_bit 24 (ucast d))
       # le_words r"
| "le_words r = []"

text \<open>
  Modelled from the spec: inc/trap.h is missing. A \<open>struct Trapframe\<close> of the x86 port is
  17 words (68 bytes): the eight general registers, \<open>reg_eax\<close> the last of them, and
  nine further words.
\<close>

definition tf_of_bytes :: "8 word list \<Rightarrow> Trapframe" where
  "tf_of_bytes bs =
     (let ws = le_words bs
      in \<lparr>tf_regs = \<lparr>reg_eax = ws ! 7, reg_rest = take 7 ws\<rparr>, tf_rest = drop 8 ws\<rparr>)"

text \<open>
  The read \<open>*tf\<close> of the source (line 142): the kernel copies the 68 bytes of the struct
  through the user pointer; \<open>None\<close> when the copy faults.
\<close>

definition kread_tf :: "kstate \<Rightarrow> u32 \<Rightarrow> Trapframe option" where
  "kread_tf s va = map_option tf_of_bytes (kread_bytes s va 68)"

section \<open>The system call handlers of kern/syscall.c\<close>

text \<open>sys_env_set_status (lines 102-121).\<close>

definition sys_env_set_status :: "kstate \<Rightarrow> envid_t \<Rightarrow> env_status \<Rightarrow> retval \<times> kstate" where
  "sys_env_set_status s envid status =
     (case envid2env s envid True of
        None \<Rightarrow> (Inl E_BAD_ENV, s)
      | Some env \<Rightarrow>
          if ENV_RUNNABLE \<noteq> env_status (envs s env) \<and> ENV_NOT_RUNNABLE \<noteq> env_status (envs s env)
          then (Inl E_INVAL, s)
          else (Inr 0, env_update s env (\<lambda>e. e\<lparr>env_status := status\<rparr>)))"

text \<open>
  sys_env_set_trapframe (lines 130-145). The outcome is a return to the caller, the
  termination of the caller, or a fault of the kernel itself.
\<close>

datatype outcome = Return retval kstate | Terminated kstate | KernelFault

definition sys_env_set_trapframe :: "kstate \<Rightarrow> envid_t \<Rightarrow> u32 \<Rightarrow> outcome" where
  "sys_env_set_trapframe s envid tf =
     (case envid2env s envid True of
        None \<Rightarrow> Return (Inl E_BAD_ENV) s
      | Some env \<Rightarrow>
          (case user_mem_assert s env tf 0 PTE_P of
             Inl s1 \<Rightarrow> Terminated s1
           | Inr s1 \<Rightarrow>
               (case kread_tf s1 tf of
                  None \<Rightarrow> KernelFault
                | Some v \<Rightarrow> Return (Inr 0) (env_update s1 env (\<lambda>e. e\<lparr>env_tf := v\<rparr>)))))"

text \<open>sys_page_alloc (lines 182-207).\<close>

definition sys_page_alloc :: "kstate \<Rightarrow> envid_t \<Rightarrow> u32 \<Rightarrow> u32 \<Rightarrow> retval \<times> kstate" where
  "sys_page_alloc s envid va perm =
     (if UTOP < va \<or> 0 \<noteq> va mod PGSIZE then (Inl E_INVAL, s)
      else
        (case envid2env s envid True of
           None \<Rightarrow> (Inl E_BAD_ENV, s)
         | Some env \<Rightarrow>
             if (PTE_U OR PTE_P) \<noteq> ((PTE_U OR PTE_P) AND perm) then (Inl E_INVAL, s)
             else
               (case page_alloc s of
                  None \<Rightarrow> (Inl E_NO_MEM, s)
                | Some (pag, s1) \<Rightarrow>
                    (let s2 = memset_page s1 pag
                     in (case page_insert s2 env pag va perm of
                           None \<Rightarrow> (Inl E_NO_MEM, s2)
                         | Some s3 \<Rightarrow> (Inr 0, s3))))))"

text \<open>sys_page_map (lines 225-261).\<close>

definition sys_page_map ::
  "kstate \<Rightarrow> envid_t \<Rightarrow> u32 \<Rightarrow> envid_t \<Rightarrow> u32 \<Rightarrow> u32 \<Rightarrow> retval \<times> kstate" where
  "sys_page_map s srcenvid srcva dstenvid dstva perm =
     (case envid2env s srcenvid True of
        None \<Rightarrow> (Inl E_BAD_ENV, s)
      | Some srcenv \<Rightarrow>
          (case envid2env s dstenvid True of
             None \<Rightarrow> (Inl E_BAD_ENV, s)
           | Some dstenv \<Rightarrow>
               if UTOP < srcva \<or> srcva mod PGSIZE \<noteq> 0 \<or> UTOP < dstva \<or> dstva mod PGSIZE \<noteq> 0
               then (Inl E_INVAL, s)
               else
                 (case page_lookup (env_pgdir (envs s srcenv)) srcva of
                    None \<Rightarrow> (Inl E_INVAL, s)
                  | Some (pag, pte) \<Rightarrow>
                      if (PTE_P OR PTE_U) \<noteq> ((PTE_U OR PTE_P) AND pte) then (Inl E_INVAL, s)
                      else if PTE_W = (PTE_W AND perm) \<and> PTE_W \<noteq> (PTE_W AND pte)
                      then (Inl E_INVAL, s)
                      else
                        (case page_insert s dstenv pag dstva perm of
                           None \<Rightarrow> (Inl E_NO_MEM, s)
                         | Some s1 \<Rightarrow> (Inr 0, s1)))))"

text \<open>sys_page_unmap (lines 270-289).\<close>

definition sys_page_unmap :: "kstate \<Rightarrow> envid_t \<Rightarrow> u32 \<Rightarrow> retval \<times> kstate" where
  "sys_page_unmap s envid va =
     (if UTOP < va \<or> va mod PGSIZE \<noteq> 0 then (Inl E_INVAL, s)
      else
        (case envid2env s envid True of
           None \<Rightarrow> (Inl E_BAD_ENV, s)
         | Some env \<Rightarrow>
             (case page_lookup (env_pgdir (envs s env)) va of
                None \<Rightarrow> (Inr 0, s)
              | Some (pag, pte) \<Rightarrow>
                  if pte \<noteq> 0 then (Inr 0, page_decref (pte_store s env va 0) pag)
                  else (Inr 0, s))))"

text \<open>
  sys_ipc_try_send (lines 329-368). \<open>ipc_deliver\<close> is the tail of the handler (lines
  356-365): the writes to the target's record once no error can occur any more.
\<close>

definition ipc_deliver :: "kstate \<Rightarrow> envid_t \<Rightarrow> u32 \<Rightarrow> u32 \<Rightarrow> kstate" where
  "ipc_deliver s dstenv val perm =
     env_update s dstenv (\<lambda>e. e
       \<lparr>env_ipc_perm := perm,
        env_ipc_value := val,
        env_ipc_recving := False,
        env_ipc_from := env_id (envs s (curenv s)),
        env_tf := (env_tf e)\<lparr>tf_regs := (tf_regs (env_tf e))\<lparr>reg_eax := 0\<rparr>\<rparr>,
        env_status := ENV_RUNNABLE\<rparr>)"

definition sys_ipc_try_send :: "kstate \<Rightarrow> envid_t \<Rightarrow> u32 \<Rightarrow> u32 \<Rightarrow> u32 \<Rightarrow> retval \<times> kstate" where
  "sys_ipc_try_send s envid val srcva perm =
     (case envid2env s envid False of
        None \<Rightarrow> (Inl E_BAD_ENV, s)
      | Some dstenv \<Rightarrow>
          if ENV_NOT_RUNNABLE \<noteq> env_status (envs s dstenv) \<or> False = env_ipc_recving (envs s dstenv)
          then (Inl E_IPC_NOT_RECV, s)
          else if srcva < UTOP \<and> env_ipc_dstva (envs s dstenv) < UTOP then
            if 0 \<noteq> srcva mod PGSIZE then (Inl E_INVAL, s)
            else
              (case page_lookup (env_pgdir (envs s (curenv s))) srcva of
                 None \<Rightarrow> (Inl E_INVAL, s)
               | Some (pag, pte) \<Rightarrow>
                   if 0 = pte then (Inl E_INVAL, s)
                   else if (PTE_U OR PTE_P) \<noteq> ((PTE_U OR PTE_P) AND pte) then (Inl E_INVAL, s)
                   else if PTE_W = (perm AND PTE_W) \<and> PTE_W \<noteq> (PTE_W AND pte)
                   then (Inl E_INVAL, s)
                   else
                     (case page_insert s dstenv pag (env_ipc_dstva (envs s dstenv)) perm of
                        None \<Rightarrow> (Inl E_NO_MEM, s)
                      | Some s1 \<Rightarrow> (Inr 0, ipc_deliver s1 dstenv val perm)))
          else (Inr 0, ipc_deliver s dstenv val 0))"


section \<open>The user-level library of lib/ipc.c\<close>

text \<open>
  ipc_send (lines 58-75). The loop of the source has no exit but a zero result, so it may
  run forever: the model counts iterations down from a bound and answers \<open>Retrying\<close> when
  the bound is used up with the loop still running. \<open>yield\<close> is what the rest of the
  system does to the kernel state between sys_yield and the caller's next turn.
\<close>

datatype send_result = Sent kstate | Retrying kstate

fun ipc_send_loop ::
  "nat \<Rightarrow> (kstate \<Rightarrow> kstate) \<Rightarrow> kstate \<Rightarrow> envid_t \<Rightarrow> u32 \<Rightarrow> u32 \<Rightarrow> u32 \<Rightarrow> send_result" where
  "ipc_send_loop 0 yield s to_env val pg perm = Retrying s"
| "ipc_send_loop (Suc n) yield s to_env val pg perm =
     (case sys_ipc_try_send s to_env val pg perm of
        (r, s1) \<Rightarrow>
          if Inr 0 \<noteq> r then ipc_send_loop n yield (yield s1) to_env val pg perm
          else Sent s1)"

definition ipc_send ::
  "nat \<Rightarrow> (kstate \<Rightarrow> kstate) \<Rightarrow> kstate \<Rightarrow> envid_t \<Rightarrow> u32 \<Rightarrow> u32 \<Rightarrow> u32 \<Rightarrow> send_result" where
  "ipc_send n yield s to_env val pg perm =
     ipc_send_loop n yield s to_env val (if 0 = pg then UTOP else pg) perm"

section \<open>Sample states\<close>

text \<open>
  The concrete states the theorems are instantiated at. A parent environment 0x1000 is
  running; it maps frame 3 read-only (present, user) at 0x800000. Its child 0x1001 is
  blocked in a receive that asks for a page at 0x800000 and has a page table for that
  address. The free list is a parameter. In \<open>demo_oom\<close> the child asks for the page at
  0x400000, where it has no page table, and no frame is free. In \<open>demo_run\<close> the child is
  the running environment, not receiving, with 5 in its saved reg_eax; \<open>demo_blocked\<close> is
  that state after the child called sys_ipc_recv with no page asked for.
\<close>

definition zero_tf :: Trapframe where
  "zero_tf = \<lparr>tf_regs = \<lparr>reg_eax = 0, reg_rest = replicate 7 0\<rparr>, tf_rest = replicate 9 0\<rparr>"

definition blank_env :: Env where
  "blank_env =
     \<lparr>env_tf = zero_tf, env_id = 0, env_parent_id = 0, env_status = ENV_FREE,
      env_pgdir = (\<lambda>i. None), env_pgfault_upcall = 0, env_ipc_recving = False,
      env_ipc_dstva = 0, env_ipc_value = 0, env_ipc_from = 0, env_ipc_perm = 0\<rparr>"

definition demo_parent :: Env where
  "demo_parent =
     blank_env\<lparr>env_id := 0x1000, env_status := ENV_RUNNABLE,
       env_pgdir := (\<lambda>i. None)(2 := Some ((\<lambda>i. 0)(0 := 0x3005)))\<rparr>"

definition demo_child :: Env where
  "demo_child =
     blank_env\<lparr>env_id := 0x1001, env_parent_id := 0x1000, env_status := ENV_NOT_RUNNABLE,
       env_pgdir := (\<lambda>i. None)(2 := Some (\<lambda>i. 0)),
       env_ipc_recving := True, env_ipc_dstva := 0x800000\<rparr>"

definition demo :: "u32 list \<Rightarrow> kstate" where
  "demo free =
     \<lparr>envs = (\<lambda>i. blank_env)(0x1000 := demo_parent, 0x1001 := demo_child),
      curenv = 0x1000, page_free_list = free, pp_ref = (\<lambda>i. 0)(3 := 1),
      phys_mem = (\<lambda>pp off. 0)\<rparr>"

definition demo_oom :: kstate where
  "demo_oom =
     (demo [])\<lparr>envs := (envs (demo []))(0x1001 := demo_child\<lparr>env_ipc_dstva := 0x400000\<rparr>)\<rparr>"



text \<open>
  The frame condition of the page table operations: they change no field of an
  environment but its page directory, and not the current environment.
\<close>

definition pgdir_only :: "kstate \<Rightarrow> kstate \<Rightarrow> bool" where
  "pgdir_only s s' =
     (curenv s' = curenv s \<and>
      (\<forall>x. envs s' x = (envs s x)\<lparr>env_pgdir := env_pgdir (envs s' x)\<rparr>))"

section \<open>Facts about the collaborators\<close>

lemmas const_defs = UTOP_def PGSIZE_def PTE_P_def PTE_U_def PTE_W_def PDX_def PTX_def
  pa2page_def page2pa_def

lemmas demo_defs = demo_def demo_parent_def demo_child_def blank_env_def

lemma envid2env_Some:
  "envid2env s envid c = Some e \<Longrightarrow> e = envid \<and> env_status (envs s envid) \<noteq> ENV_FREE"
  by (auto simp: envid2env_def split: if_splits)

lemma pgdir_only_refl: "pgdir_only s s"
  by (simp add: pgdir_only_def)

lemma pgdir_only_trans [trans]: "pgdir_only s t \<Longrightarrow> pgdir_only t u \<Longrightarrow> pgdir_only s u"
  unfolding pgdir_only_def
  by (metis (no_types, lifting) Env.surjective Env.update_convs(5))

lemma page_decref_pgdir_only: "pgdir_only s (page_decref s pp)"
  by (simp add: page_decref_def page_free_def pgdir_only_def Let_def)

lemma pte_store_pgdir_only: "pgdir_only s (pte_store s e va v)"
  by (simp add: pte_store_def env_update_def pgdir_only_def)

lemma pp_ref_upd_pgdir_only: "pgdir_only s (s\<lparr>pp_ref := f\<rparr>)"
  by (simp add: pgdir_only_def)

lemma pgdir_walk_create_pgdir_only:
  "pgdir_walk_create s e va = Some s1 \<Longrightarrow> pgdir_only s s1"
  by (auto simp: pgdir_walk_create_def page_alloc_def env_update_def pgdir_only_def
      split: option.splits list.splits)

lemma page_remove_pgdir_only: "pgdir_only s (page_remove s e va)"
  unfolding page_remove_def
  by (auto split: option.splits
      intro: pgdir_only_refl pgdir_only_trans [OF page_decref_pgdir_only pte_store_pgdir_only])

lemma page_insert_pgdir_only:
  assumes "page_insert s e pp va perm = Some s'"
  shows "pgdir_only s s'"
proof -
  from assms obtain s1 where w: "pgdir_walk_create s e va = Some s1"
    and s': "s' = pte_store (page_remove (s1\<lparr>pp_ref := (pp_ref s1)(pp := pp_ref s1 pp + 1)\<rparr>) e va)
                    e va (page2pa pp OR perm OR PTE_P)"
    by (auto simp: page_insert_def Let_def split: option.splits)
  have "pgdir_only s s1" by (rule pgdir_walk_create_pgdir_only [OF w])
  also have "pgdir_only s1 (s1\<lparr>pp_ref := (pp_ref s1)(pp := pp_ref s1 pp + 1)\<rparr>)"
    by (rule pp_ref_upd_pgdir_only)
  also have "pgdir_only \<dots> (page_remove (s1\<lparr>pp_ref := (pp_ref s1)(pp := pp_ref s1 pp + 1)\<rparr>) e va)"
    by (rule page_remove_pgdir_only)
  also have "pgdir_only \<dots> s'"
    unfolding s' by (rule pte_store_pgdir_only)
  finally show ?thesis .
qed

lemma pgdir_only_fields:
  assumes "pgdir_only s s'"
  shows "curenv s' = curenv s" "env_id (envs s' x) = env_id (envs s x)"
proof -
  from assms have c: "curenv s' = curenv s"
    and e: "envs s' x = (envs s x)\<lparr>env_pgdir := env_pgdir (envs s' x)\<rparr>"
    by (simp_all add: pgdir_only_def)
  show "curenv s' = curenv s" by (rule c)
  show "env_id (envs s' x) = env_id (envs s x)" by (subst e) simp
qed

lemma user_mem_assert_len0: "user_mem_assert s e va 0 perm = Inr s"
  by (simp add: user_mem_assert_def user_mem_check_def range_pages_def)

text \<open>After an insertion the page table of the target holds the new entry.\<close>

lemma pgdir_walk_create_table:
  "pgdir_walk_create s e va = Some s1 \<Longrightarrow> env_pgdir (envs s1 e) (PDX va) \<noteq> None"
  by (auto simp: pgdir_walk_create_def page_alloc_def env_update_def
      split: option.splits list.splits)

lemma page_remove_table:
  "env_pgdir (envs s e) (PDX va) \<noteq> None \<Longrightarrow> env_pgdir (envs (page_remove s e va) e) (PDX va) \<noteq> None"
  by (auto simp: page_remove_def pte_store_def env_update_def page_decref_def page_free_def Let_def
      split: option.splits)

lemma present_bit_set: "(a OR b OR PTE_P) AND PTE_P \<noteq> 0"
proof -
  have "(a OR b OR PTE_P) AND PTE_P = PTE_P"
    by (rule bit_eqI) (auto simp: bit_simps)
  then show ?thesis by (simp add: PTE_P_def)
qed

lemma page_insert_maps:
  assumes "page_insert s e pp va perm = Some s'"
  shows "page_lookup (env_pgdir (envs s' e)) va =
           Some (pa2page (page2pa pp OR perm OR PTE_P), page2pa pp OR perm OR PTE_P)"
proof -
  from assms obtain s1 where w: "pgdir_walk_create s e va = Some s1"
    and s': "s' = pte_store (page_remove (s1\<lparr>pp_ref := (pp_ref s1)(pp := pp_ref s1 pp + 1)\<rparr>) e va)
                    e va (page2pa pp OR perm OR PTE_P)"
    by (auto simp: page_insert_def Let_def split: option.splits)
  let ?s3 = "page_remove (s1\<lparr>pp_ref := (pp_ref s1)(pp := pp_ref s1 pp + 1)\<rparr>) e va"
  from pgdir_walk_create_table [OF w]
  have "env_pgdir (envs (s1\<lparr>pp_ref := (pp_ref s1)(pp := pp_ref s1 pp + 1)\<rparr>) e) (PDX va) \<noteq> None"
    by simp
  then have "env_pgdir (envs ?s3 e) (PDX va) \<noteq> None" by (rule page_remove_table)
  then obtain pt where pt: "env_pgdir (envs ?s3 e) (PDX va) = Some pt" by auto
  have "env_pgdir (envs s' e) (PDX va) = Some (pt(PTX va := page2pa pp OR perm OR PTE_P))"
    unfolding s' using pt by (simp add: pte_store_def env_update_def)
  then show ?thesis
    using present_bit_set [of "page2pa pp" perm] by (simp add: page_lookup_def)
qed

text \<open>A read faults as soon as one of its bytes lies in a page that is not mapped.\<close>

lemma kread_bytes_fault:
  "k < n \<Longrightarrow> kread_byte s (va + word_of_nat k) = None \<Longrightarrow> kread_bytes s va n = None"
proof (induction n arbitrary: va k)
  case 0
  then show ?case by simp
next
  case (Suc n)
  show ?case
  proof (cases k)
    case 0
    with Suc.prems show ?thesis by simp
  next
    case (Suc j)
    with Suc.prems have "j < n" "kread_byte s (va + 1 + word_of_nat j) = None"
      by (simp_all add: add.assoc)
    then have "kread_bytes s (va + 1) n = None" by (rule Suc.IH)
    then show ?thesis by (simp split: option.splits)
  qed
qed

subsection \<open>The sample states\<close>

lemma demo_parent_resolves: "envid2env (demo free) 0x1000 c = Some 0x1000"
  by (simp add: envid2env_def demo_defs)

lemma demo_child_resolves: "envid2env (demo free) 0x1001 c = Some 0x1001"
  by (simp add: envid2env_def demo_defs descendant.child)

lemma demo_lookup_parent:
  "page_lookup (env_pgdir (envs (demo free) 0x1000)) 0x800000 = Some (3, 0x3005)"
  by (simp add: page_lookup_def demo_defs const_defs)

lemma demo_tf_unmapped: "kread_tf (demo [5]) 0x400000 = None"
proof -
  have "kread_byte (demo [5]) (0x400000 + word_of_nat 0) = None"
    by (simp add: kread_byte_def page_lookup_def demo_defs const_defs)
  then have "kread_bytes (demo [5]) 0x400000 68 = None"
    by (rule kread_bytes_fault [rotated]) simp
  then show ?thesis by (simp add: kread_tf_def)
qed

lemma demo_tf_straddles: "kread_byte (demo [5]) 0x800FE0 \<noteq> None \<and> kread_tf (demo [5]) 0x800FE0 = None"
proof -
  have "kread_byte (demo [5]) (0x800FE0 + word_of_nat 32) = None"
    by (simp add: kread_byte_def page_lookup_def demo_defs const_defs)
  then have "kread_bytes (demo [5]) 0x800FE0 68 = None"
    by (rule kread_bytes_fault [rotated]) simp
  moreover have "kread_byte (demo [5]) 0x800FE0 \<noteq> None"
    by (simp add: kread_byte_def page_lookup_def demo_defs const_defs)
  ultimately show ?thesis by (simp add: kread_tf_def)
qed


section \<open>How sys_ipc_try_send returns\<close>

lemma ipc_deliver_target:
  "env_ipc_recving (envs (ipc_deliver s d val perm) d) = False"
  "env_ipc_from (envs (ipc_deliver s d val perm) d) = env_id (envs s (curenv s))"
  "env_ipc_value (envs (ipc_deliver s d val perm) d) = val"
  "env_ipc_perm (envs (ipc_deliver s d val perm) d) = perm"
  "reg_eax (tf_regs (env_tf (envs (ipc_deliver s d val perm) d))) = 0"
  "env_status (envs (ipc_deliver s d val perm) d) = ENV_RUNNABLE"
  by (simp_all add: ipc_deliver_def env_update_def)

lemma ipc_deliver_pgdir:
  "env_pgdir (envs (ipc_deliver s d val perm) x) = env_pgdir (envs s x)"
  by (simp add: ipc_deliver_def env_update_def)

text \<open>
  Every call ends in one of three ways: an error with the state untouched, a delivery
  after a page insertion, or a delivery of the word alone.
\<close>

lemma sys_ipc_try_send_cases:
  assumes "sys_ipc_try_send s envid val srcva perm = (r, s')"
  obtains (fail) "r \<in> {Inl E_BAD_ENV, Inl E_IPC_NOT_RECV, Inl E_INVAL, Inl E_NO_MEM}" "s' = s"
  | (page) pag pte s1 where "r = Inr 0"
      "env_status (envs s envid) = ENV_NOT_RUNNABLE" "env_ipc_recving (envs s envid)"
      "srcva < UTOP" "env_ipc_dstva (envs s envid) < UTOP"
      "page_insert s envid pag (env_ipc_dstva (envs s envid)) perm = Some s1"
      "s' = ipc_deliver s1 envid val perm"
      "page_lookup (env_pgdir (envs s (curenv s))) srcva = Some (pag, pte)"
  | (word) "r = Inr 0"
      "env_status (envs s envid) = ENV_NOT_RUNNABLE" "env_ipc_recving (envs s envid)"
      "\<not> (srcva < UTOP \<and> env_ipc_dstva (envs s envid) < UTOP)"
      "s' = ipc_deliver s envid val 0"
proof (cases "envid2env s envid False")
  case None
  with assms have "r = Inl E_BAD_ENV" "s' = s"
    by (simp_all add: sys_ipc_try_send_def)
  then show ?thesis by (intro fail) simp_all
next
  case (Some d)
  then have d: "d = envid" by (simp add: envid2env_Some)
  show ?thesis
  proof (cases "ENV_NOT_RUNNABLE \<noteq> env_status (envs s envid) \<or> False = env_ipc_recving (envs s envid)")
    case True
    with assms Some d have "r = Inl E_IPC_NOT_RECV" "s' = s"
      by (simp_all add: sys_ipc_try_send_def)
    then show ?thesis by (intro fail) simp_all
  next
    case ready: False
    show ?thesis
    proof (cases "srcva < UTOP \<and> env_ipc_dstva (envs s envid) < UTOP")
      case False
      with assms Some d ready have "r = Inr 0" "s' = ipc_deliver s envid val 0"
        by (auto simp: sys_ipc_try_send_def)
      with ready False show ?thesis by (intro word) auto
    next
      case True
      with assms Some d ready
      consider "r = Inl E_INVAL" "s' = s" | "r = Inl E_NO_MEM" "s' = s"
        | pag pte s1 where "r = Inr 0"
            "page_insert s envid pag (env_ipc_dstva (envs s envid)) perm = Some s1"
            "s' = ipc_deliver s1 envid val perm"
            "page_lookup (env_pgdir (envs s (curenv s))) srcva = Some (pag, pte)"
        by (auto simp: sys_ipc_try_send_def split: if_splits option.splits)
      then show ?thesis
      proof cases
        case 1 then show ?thesis by (intro fail) simp_all
      next
        case 2 then show ?thesis by (intro fail) simp_all
      next
        case 3 with ready True show ?thesis by (intro page [of pag s1 pte]) auto
      qed
    qed
  qed
qed

section \<open>Memory grants\<close>

text \<open>
  Claim C1. In sys_page_map, and in sys_ipc_try_send once the receiver is ready and both
  sides name a page, a request whose permission includes the writable bit while the
  grantor has no writable mapping at the source address returns \<open>-E_INVAL\<close> and leaves
  the whole kernel state, and so both address spaces, as it was. For sys_page_map the
  grantor is the source environment and both handles resolve; for sys_ipc_try_send the
  grantor is the current environment.
\<close>

theorem write_grant_needs_writable_source:
  assumes w: "perm AND PTE_W = PTE_W"
  shows "(envid2env s srcenvid True = Some se \<and> envid2env s dstenvid True = Some de \<and>
          \<not> (\<exists>pag pte. page_lookup (env_pgdir (envs s se)) srcva = Some (pag, pte) \<and>
                         pte AND PTE_W = PTE_W)
          \<longrightarrow> sys_page_map s srcenvid srcva dstenvid dstva perm = (Inl E_INVAL, s)) \<and>
         (envid2env s envid False = Some re \<and>
          env_status (envs s re) = ENV_NOT_RUNNABLE \<and> env_ipc_recving (envs s re) \<and>
          srcva < UTOP \<and> env_ipc_dstva (envs s re) < UTOP \<and>
          \<not> (\<exists>pag pte. page_lookup (env_pgdir (envs s (curenv s))) srcva = Some (pag, pte) \<and>
                         pte AND PTE_W = PTE_W)
          \<longrightarrow> sys_ipc_try_send s envid val srcva perm = (Inl E_INVAL, s))"
proof (intro conjI impI)
  assume a: "envid2env s srcenvid True = Some se \<and> envid2env s dstenvid True = Some de \<and>
          \<not> (\<exists>pag pte. page_lookup (env_pgdir (envs s se)) srcva = Some (pag, pte) \<and>
                         pte AND PTE_W = PTE_W)"
  from w have w': "PTE_W AND perm = PTE_W" by (simp add: and.commute)
  show "sys_page_map s srcenvid srcva dstenvid dstva perm = (Inl E_INVAL, s)"
    using a w' by (auto simp: sys_page_map_def and.commute split: option.splits)
next
  assume a: "envid2env s envid False = Some re \<and>
          env_status (envs s re) = ENV_NOT_RUNNABLE \<and> env_ipc_recving (envs s re) \<and>
          srcva < UTOP \<and> env_ipc_dstva (envs s re) < UTOP \<and>
          \<not> (\<exists>pag pte. page_lookup (env_pgdir (envs s (curenv s))) srcva = Some (pag, pte) \<and>
                         pte AND PTE_W = PTE_W)"
  show "sys_ipc_try_send s envid val srcva perm = (Inl E_INVAL, s)"
    using a w by (auto simp: sys_ipc_try_send_def and.commute split: option.splits)
qed

text \<open>
  The parent, whose page at 0x800000 is read-only, asks for a writable grant to its
  child, by sys_page_map and by sys_ipc_try_send.
\<close>

theorem write_grant_needs_writable_source_witness:
  "(PTE_P OR PTE_U OR PTE_W) AND PTE_W = PTE_W \<and>
   page_lookup (env_pgdir (envs (demo [5]) 0x1000)) 0x800000 = Some (3, 0x3005) \<and>
   0x3005 AND PTE_W \<noteq> PTE_W \<and>
   sys_page_map (demo [5]) 0x1000 0x800000 0x1001 0x800000 (PTE_P OR PTE_U OR PTE_W)
     = (Inl E_INVAL, demo [5]) \<and>
   sys_ipc_try_send (demo [5]) 0x1001 42 0x800000 (PTE_P OR PTE_U OR PTE_W)
     = (Inl E_INVAL, demo [5])"
proof -
  have w: "(PTE_P OR PTE_U OR PTE_W) AND PTE_W = PTE_W" by (simp add: const_defs)
  have ro: "(0x3005 :: u32) AND PTE_W \<noteq> PTE_W" by (simp add: const_defs)
  have cur: "curenv (demo [5]) = 0x1000" by (simp add: demo_def)
  have child: "env_status (envs (demo [5]) 0x1001) = ENV_NOT_RUNNABLE"
    "env_ipc_recving (envs (demo [5]) 0x1001)" "(0x800000 :: u32) < UTOP"
    "env_ipc_dstva (envs (demo [5]) 0x1001) < UTOP"
    by (simp_all add: demo_defs const_defs)
  note t = write_grant_needs_writable_source [OF w, of "demo [5]" "0x1000" "0x1000" "0x1001" "0x1001"
      "0x800000" "0x800000" "0x1001" "0x1001" 42]
  from t ro child show ?thesis
    by (simp add: demo_parent_resolves demo_child_resolves demo_lookup_parent cur w)
qed

section \<open>The rendezvous\<close>

text \<open>
  Claim C2. A call of sys_ipc_try_send that returns 0 found its target NOT_RUNNABLE and
  receiving, and leaves the target with env_ipc_recving cleared, the sender's env_id in
  env_ipc_from, the message word in env_ipc_value, a saved reg_eax of 0 and the status
  RUNNABLE. When the sender offered a page and the receiver asked for one, the sender's
  frame was inserted at the receiver's destination with the given permission (the
  receiver's page table holds that entry afterwards) and env_ipc_perm is the given
  permission; otherwise no address space changed and env_ipc_perm is 0. The handler is one
  function of the state, so this is one step.
\<close>

theorem sys_ipc_try_send_handoff:
  assumes "sys_ipc_try_send s envid val srcva perm = (Inr 0, s')"
  shows "env_status (envs s envid) = ENV_NOT_RUNNABLE \<and> env_ipc_recving (envs s envid) \<and>
         env_ipc_recving (envs s' envid) = False \<and>
         env_ipc_from (envs s' envid) = env_id (envs s (curenv s)) \<and>
         env_ipc_value (envs s' envid) = val \<and>
         env_ipc_perm (envs s' envid) =
           (if srcva < UTOP \<and> env_ipc_dstva (envs s envid) < UTOP then perm else 0) \<and>
         reg_eax (tf_regs (env_tf (envs s' envid))) = 0 \<and>
         env_status (envs s' envid) = ENV_RUNNABLE \<and>
         (if srcva < UTOP \<and> env_ipc_dstva (envs s envid) < UTOP
          then \<exists>pag pte s1.
                 page_lookup (env_pgdir (envs s (curenv s))) srcva = Some (pag, pte) \<and>
                 page_insert s envid pag (env_ipc_dstva (envs s envid)) perm = Some s1 \<and>
                 s' = ipc_deliver s1 envid val perm \<and>
                 page_lookup (env_pgdir (envs s' envid)) (env_ipc_dstva (envs s envid)) =
                   Some (pa2page (page2pa pag OR perm OR PTE_P), page2pa pag OR perm OR PTE_P)
          else s' = ipc_deliver s envid val 0 \<and>
               (\<forall>x. env_pgdir (envs s' x) = env_pgdir (envs s x)))"
  using assms
proof (cases rule: sys_ipc_try_send_cases)
  case fail
  then show ?thesis by auto
next
  case (page pag pte s1)
  from page(6) have "pgdir_only s s1" by (rule page_insert_pgdir_only)
  then have id: "env_id (envs s1 (curenv s1)) = env_id (envs s (curenv s))"
    by (simp add: pgdir_only_fields)
  have m: "page_lookup (env_pgdir (envs s' envid)) (env_ipc_dstva (envs s envid)) =
      Some (pa2page (page2pa pag OR perm OR PTE_P), page2pa pag OR perm OR PTE_P)"
    unfolding page(7) ipc_deliver_pgdir by (rule page_insert_maps [OF page(6)])
  have "\<exists>pag pte s1.
      page_lookup (env_pgdir (envs s (curenv s))) srcva = Some (pag, pte) \<and>
      page_insert s envid pag (env_ipc_dstva (envs s envid)) perm = Some s1 \<and>
      s' = ipc_deliver s1 envid val perm \<and>
      page_lookup (env_pgdir (envs s' envid)) (env_ipc_dstva (envs s envid)) =
        Some (pa2page (page2pa pag OR perm OR PTE_P), page2pa pag OR perm OR PTE_P)"
    using page(6,7,8) m by blast
  with page(1-5,7) id show ?thesis by (simp add: ipc_deliver_target)
next
  case word
  then show ?thesis by (auto simp: ipc_deliver_target ipc_deliver_pgdir)
qed

text \<open>
  The parent sends the word 42 and its page at 0x800000 to the waiting child, which maps
  nothing there before; and it sends the word alone.
\<close>

lemma demo_send_page:
  "fst (sys_ipc_try_send (demo [5]) 0x1001 42 0x800000 (PTE_P OR PTE_U)) = Inr 0"
  "page_lookup (env_pgdir (envs (demo [5]) 0x1001)) 0x800000 = None"
  "page_lookup (env_pgdir (envs (snd (sys_ipc_try_send (demo [5]) 0x1001 42 0x800000 (PTE_P OR PTE_U))) 0x1001)) 0x800000
     = Some (3, 0x3005)"
  by (simp_all add: sys_ipc_try_send_def envid2env_def page_lookup_def page_insert_def
      page_remove_def pte_store_def ipc_deliver_def env_update_def Let_def
      pgdir_walk_create_def page_alloc_def demo_defs const_defs)

lemma demo_send_word:
  "fst (sys_ipc_try_send (demo [5]) 0x1001 42 UTOP (PTE_P OR PTE_U OR PTE_W)) = Inr 0"
  by (simp add: sys_ipc_try_send_def envid2env_def demo_defs const_defs)

theorem sys_ipc_try_send_handoff_witness:
  "fst (sys_ipc_try_send (demo [5]) 0x1001 42 0x800000 (PTE_P OR PTE_U)) = Inr 0 \<and>
   env_ipc_recving (envs (snd (sys_ipc_try_send (demo [5]) 0x1001 42 0x800000 (PTE_P OR PTE_U))) 0x1001) = False \<and>
   env_ipc_from (envs (snd (sys_ipc_try_send (demo [5]) 0x1001 42 0x800000 (PTE_P OR PTE_U))) 0x1001) = 0x1000 \<and>
   env_ipc_value (envs (snd (sys_ipc_try_send (demo [5]) 0x1001 42 0x800000 (PTE_P OR PTE_U))) 0x1001) = 42 \<and>
   env_ipc_perm (envs (snd (sys_ipc_try_send (demo [5]) 0x1001 42 0x800000 (PTE_P OR PTE_U))) 0x1001) = PTE_P OR PTE_U \<and>
   reg_eax (tf_regs (env_tf (envs (snd (sys_ipc_try_send (demo [5]) 0x1001 42 0x800000 (PTE_P OR PTE_U))) 0x1001))) = 0 \<and>
   env_status (envs (snd (sys_ipc_try_send (demo [5]) 0x1001 42 0x800000 (PTE_P OR PTE_U))) 0x1001) = ENV_RUNNABLE \<and>
   page_lookup (env_pgdir (envs (demo [5]) 0x1000)) 0x800000 = Some (3, 0x3005) \<and>
   page_lookup (env_pgdir (envs (demo [5]) 0x1001)) 0x800000 = None \<and>
   page_lookup (env_pgdir (envs (snd (sys_ipc_try_send (demo [5]) 0x1001 42 0x800000 (PTE_P OR PTE_U))) 0x1001)) 0x800000
     = Some (3, 0x3005) \<and>
   fst (sys_ipc_try_send (demo [5]) 0x1001 42 UTOP (PTE_P OR PTE_U OR PTE_W)) = Inr 0 \<and>
   env_ipc_perm (envs (snd (sys_ipc_try_send (demo [5]) 0x1001 42 UTOP (PTE_P OR PTE_U OR PTE_W))) 0x1001) = 0 \<and>
   page_lookup (env_pgdir (envs (snd (sys_ipc_try_send (demo [5]) 0x1001 42 UTOP (PTE_P OR PTE_U OR PTE_W))) 0x1001)) 0x800000
     = None"
proof -
  let ?c = "sys_ipc_try_send (demo [5]) 0x1001 42 0x800000 (PTE_P OR PTE_U)"
  let ?d = "sys_ipc_try_send (demo [5]) 0x1001 42 UTOP (PTE_P OR PTE_U OR PTE_W)"
  have e: "?c = (Inr 0, snd ?c)" using demo_send_page(1) by (metis prod.collapse)
  have e': "?d = (Inr 0, snd ?d)" using demo_send_word by (metis prod.collapse)
  have pre: "(0x800000 :: u32) < UTOP" "env_ipc_dstva (envs (demo [5]) 0x1001) < UTOP"
    "env_id (envs (demo [5]) (curenv (demo [5]))) = 0x1000" "\<not> UTOP < UTOP"
    by (simp_all add: demo_defs const_defs)
  from sys_ipc_try_send_handoff [OF e] pre
  have 1: "env_ipc_recving (envs (snd ?c) 0x1001) = False \<and>
      env_ipc_from (envs (snd ?c) 0x1001) = 0x1000 \<and>
      env_ipc_value (envs (snd ?c) 0x1001) = 42 \<and>
      env_ipc_perm (envs (snd ?c) 0x1001) = PTE_P OR PTE_U \<and>
      reg_eax (tf_regs (env_tf (envs (snd ?c) 0x1001))) = 0 \<and>
      env_status (envs (snd ?c) 0x1001) = ENV_RUNNABLE"
    by simp
  from sys_ipc_try_send_handoff [OF e'] pre
  have 2: "env_ipc_perm (envs (snd ?d) 0x1001) = 0 \<and>
      env_pgdir (envs (snd ?d) 0x1001) = env_pgdir (envs (demo [5]) 0x1001)"
    by (simp add: ipc_deliver_target ipc_deliver_pgdir)
  from 1 2 show ?thesis
    by (simp add: demo_send_page demo_send_word demo_lookup_parent)
qed


text \<open>
  Claim C3. A call of sys_ipc_try_send that returns an error returns one of
  \<open>-E_BAD_ENV\<close>, \<open>-E_IPC_NOT_RECV\<close>, \<open>-E_INVAL\<close> and \<open>-E_NO_MEM\<close> and leaves the
  kernel state identical: with it the target's IPC fields, its waiting state and its
  status.
\<close>

theorem sys_ipc_try_send_all_or_nothing:
  assumes "sys_ipc_try_send s envid val srcva perm = (r, s')" and "r \<noteq> Inr 0"
  shows "s' = s \<and> r \<in> {Inl E_BAD_ENV, Inl E_IPC_NOT_RECV, Inl E_INVAL, Inl E_NO_MEM}"
  using assms by (cases rule: sys_ipc_try_send_cases) simp_all

text \<open>
  The page insertion runs out of memory: the child waits for a page where it has no
  page table and no frame is free.
\<close>

lemma demo_oom_send:
  "sys_ipc_try_send demo_oom 0x1001 42 0x800000 (PTE_P OR PTE_U) = (Inl E_NO_MEM, demo_oom)"
  by (simp add: sys_ipc_try_send_def envid2env_def page_lookup_def page_insert_def
      pgdir_walk_create_def page_alloc_def demo_oom_def demo_defs const_defs)

theorem sys_ipc_try_send_all_or_nothing_witness:
  "sys_ipc_try_send demo_oom 0x1001 42 0x800000 (PTE_P OR PTE_U) = (Inl E_NO_MEM, demo_oom) \<and>
   Inl E_NO_MEM \<noteq> (Inr 0 :: retval) \<and>
   env_ipc_recving (envs demo_oom 0x1001) \<and> env_status (envs demo_oom 0x1001) = ENV_NOT_RUNNABLE"
  using sys_ipc_try_send_all_or_nothing [OF demo_oom_send]
  by (simp add: demo_oom_send) (simp add: demo_oom_def demo_defs)





section \<open>Where the handlers depart from their contract\<close>

text \<open>
  Claim C4. What sys_page_alloc does when a frame was acquired and its insertion fails:
  it returns \<open>-E_NO_MEM\<close> with the allocator as page_alloc left it. The frame was on the
  free list before the call and is not on it afterwards (its reference count is 0 and
  nothing maps it): page_free is never called on this path.
\<close>

theorem sys_page_alloc_keeps_frame_on_failed_insert:
  assumes "\<not> UTOP < va" and "va mod PGSIZE = 0"
    and "envid2env s envid True = Some e"
    and "(PTE_U OR PTE_P) AND perm = PTE_U OR PTE_P"
    and "page_alloc s = Some (pag, s1)"
    and "page_insert (memset_page s1 pag) e pag va perm = None"
    and "distinct (page_free_list s)"
  shows "sys_page_alloc s envid va perm = (Inl E_NO_MEM, memset_page s1 pag) \<and>
         pag \<in> set (page_free_list s) \<and>
         pag \<notin> set (page_free_list (memset_page s1 pag)) \<and>
         pp_ref (memset_page s1 pag) pag = 0"
proof -
  from assms(5) obtain rest where fl: "page_free_list s = pag # rest"
    and s1: "s1 = s\<lparr>page_free_list := rest, pp_ref := (pp_ref s)(pag := 0)\<rparr>"
    by (auto simp: page_alloc_def split: list.splits)
  from fl assms(7) have "pag \<notin> set rest" by simp
  moreover have "sys_page_alloc s envid va perm = (Inl E_NO_MEM, memset_page s1 pag)"
    using assms(1-6) by (simp add: sys_page_alloc_def)
  ultimately show ?thesis
    using fl s1 by (simp add: memset_page_def)
qed

text \<open>
  One frame is free and the parent has no page table for 0x400000: the frame goes to the
  page, the page table finds none, and after the call no allocation succeeds.
\<close>

theorem sys_page_alloc_keeps_frame_on_failed_insert_witness:
  "fst (sys_page_alloc (demo [5]) 0x1000 0x400000 (PTE_U OR PTE_P OR PTE_W)) = Inl E_NO_MEM \<and>
   page_free_list (demo [5]) = [5] \<and>
   page_free_list (snd (sys_page_alloc (demo [5]) 0x1000 0x400000 (PTE_U OR PTE_P OR PTE_W))) = [] \<and>
   page_alloc (snd (sys_page_alloc (demo [5]) 0x1000 0x400000 (PTE_U OR PTE_P OR PTE_W))) = None"
proof -
  let ?s1 = "(demo [5])\<lparr>page_free_list := [], pp_ref := (pp_ref (demo [5]))(5 := 0)\<rparr>"
  have a: "page_alloc (demo [5]) = Some (5, ?s1)"
    by (simp add: page_alloc_def demo_def)
  have i: "page_insert (memset_page ?s1 5) 0x1000 5 0x400000 (PTE_U OR PTE_P OR PTE_W) = None"
    by (simp add: page_insert_def pgdir_walk_create_def page_alloc_def memset_page_def
        demo_defs const_defs)
  have v: "\<not> UTOP < (0x400000 :: u32)" "(0x400000 :: u32) mod PGSIZE = 0"
    "(PTE_U OR PTE_P) AND (PTE_U OR PTE_P OR PTE_W) = PTE_U OR PTE_P"
    "distinct (page_free_list (demo [5]))"
    by (simp_all add: const_defs demo_def)
  from sys_page_alloc_keeps_frame_on_failed_insert [OF v(1,2) demo_parent_resolves v(3) a i v(4)]
  show ?thesis
    by (simp add: memset_page_def page_alloc_def) (simp add: demo_def)
qed

text \<open>
  Claim C5. What sys_env_set_status does for a target that resolves: the test is on the
  status the target has, not on the status given. A target that is RUNNABLE or
  NOT_RUNNABLE gets any status written, FREE and DYING included, with result 0; any
  other target gets \<open>-E_INVAL\<close>, whatever status is given.
\<close>

theorem sys_env_set_status_tests_target:
  assumes "envid2env s envid True = Some e"
  shows "sys_env_set_status s envid status =
           (if env_status (envs s e) = ENV_RUNNABLE \<or> env_status (envs s e) = ENV_NOT_RUNNABLE
            then (Inr 0, env_update s e (\<lambda>x. x\<lparr>env_status := status\<rparr>))
            else (Inl E_INVAL, s))"
  using assms by (auto simp: sys_env_set_status_def)

text \<open>The running parent sets its own status to FREE.\<close>

theorem sys_env_set_status_tests_target_witness:
  "envid2env (demo [5]) 0x1000 True = Some 0x1000 \<and>
   fst (sys_env_set_status (demo [5]) 0x1000 ENV_FREE) = Inr 0 \<and>
   env_status (envs (snd (sys_env_set_status (demo [5]) 0x1000 ENV_FREE)) 0x1000) = ENV_FREE"
  using sys_env_set_status_tests_target [OF demo_parent_resolves, of "[5]" ENV_FREE]
  by (simp add: demo_parent_resolves) (simp add: demo_defs env_update_def)

text \<open>
  Claim C6. What the address checks do at the split itself: UTOP is page-aligned and not
  below the split, and the handlers accept it, since they test \<open>UTOP < va\<close>. For a
  target that resolves, sys_page_unmap at UTOP returns 0, sys_page_alloc at UTOP returns
  what the insertion gives, and sys_page_map to UTOP returns what the insertion gives.
\<close>

theorem address_check_admits_UTOP:
  assumes "envid2env s envid True = Some e"
  shows "fst (sys_page_unmap s envid UTOP) = Inr 0 \<and>
         ((PTE_U OR PTE_P) AND perm = PTE_U OR PTE_P \<and> page_alloc s = Some (pag, s1) \<and>
          page_insert (memset_page s1 pag) e pag UTOP perm = Some s2
          \<longrightarrow> sys_page_alloc s envid UTOP perm = (Inr 0, s2)) \<and>
         (envid2env s srcenvid True = Some se \<and> \<not> UTOP < srcva \<and> srcva mod PGSIZE = 0 \<and>
          page_lookup (env_pgdir (envs s se)) srcva = Some (pg, pte) \<and>
          (PTE_U OR PTE_P) AND pte = PTE_P OR PTE_U \<and> PTE_W AND perm' \<noteq> PTE_W \<and>
          page_insert s e pg UTOP perm' = Some s3
          \<longrightarrow> sys_page_map s srcenvid srcva envid UTOP perm' = (Inr 0, s3))"
proof (intro conjI impI)
  have al: "UTOP mod PGSIZE = 0" "\<not> UTOP < UTOP" by (simp_all add: const_defs)
  show "fst (sys_page_unmap s envid UTOP) = Inr 0"
    using assms al by (simp add: sys_page_unmap_def split: option.splits)
  show "sys_page_alloc s envid UTOP perm = (Inr 0, s2)"
    if "(PTE_U OR PTE_P) AND perm = PTE_U OR PTE_P \<and> page_alloc s = Some (pag, s1) \<and>
        page_insert (memset_page s1 pag) e pag UTOP perm = Some s2"
    using that assms al by (simp add: sys_page_alloc_def)
  show "sys_page_map s srcenvid srcva envid UTOP perm' = (Inr 0, s3)"
    if "envid2env s srcenvid True = Some se \<and> \<not> UTOP < srcva \<and> srcva mod PGSIZE = 0 \<and>
        page_lookup (env_pgdir (envs s se)) srcva = Some (pg, pte) \<and>
        (PTE_U OR PTE_P) AND pte = PTE_P OR PTE_U \<and> PTE_W AND perm' \<noteq> PTE_W \<and>
        page_insert s e pg UTOP perm' = Some s3"
    using that assms al by (auto simp: sys_page_map_def)
qed

text \<open>With two free frames the parent gets a writable user page mapped at UTOP.\<close>

lemma demo_alloc_at_UTOP:
  "fst (sys_page_alloc (demo [5, 6]) 0x1000 UTOP (PTE_U OR PTE_P OR PTE_W)) = Inr 0"
  "page_lookup (env_pgdir (envs (snd (sys_page_alloc (demo [5, 6]) 0x1000 UTOP (PTE_U OR PTE_P OR PTE_W))) 0x1000)) UTOP
     = Some (5, 0x5007)"
  by (simp_all add: sys_page_alloc_def envid2env_def page_insert_def page_remove_def
      pte_store_def env_update_def page_lookup_def Let_def
      pgdir_walk_create_def page_alloc_def memset_page_def demo_defs const_defs)

theorem address_check_admits_UTOP_witness:
  "\<not> (UTOP < UTOP) \<and> UTOP mod PGSIZE = 0 \<and>
   fst (sys_page_unmap (demo [5, 6]) 0x1000 UTOP) = Inr 0 \<and>
   fst (sys_page_alloc (demo [5, 6]) 0x1000 UTOP (PTE_U OR PTE_P OR PTE_W)) = Inr 0 \<and>
   page_lookup (env_pgdir (envs (snd (sys_page_alloc (demo [5, 6]) 0x1000 UTOP (PTE_U OR PTE_P OR PTE_W))) 0x1000)) UTOP
     = Some (5, 0x5007)"
  using address_check_admits_UTOP [OF demo_parent_resolves [of "[5, 6]"]]
  by (simp add: demo_alloc_at_UTOP) (simp add: const_defs)

text \<open>
  Claim C7. What the permission checks do: sys_page_alloc asks only that present and user
  are set, so any further bits pass; sys_page_map tests present and user on the source's
  page table entry and never on the permission given, so the permission 0 passes (the
  same test stands in sys_ipc_try_send). In both cases the result is what the insertion
  gives.
\<close>

theorem permission_bits_not_validated:
  assumes "envid2env s envid True = Some e"
  shows "(\<not> UTOP < va \<and> va mod PGSIZE = 0 \<and> page_alloc s = Some (pag, s1) \<and>
          page_insert (memset_page s1 pag) e pag va (PTE_U OR PTE_P OR extra) = Some s2
          \<longrightarrow> sys_page_alloc s envid va (PTE_U OR PTE_P OR extra) = (Inr 0, s2)) \<and>
         (envid2env s srcenvid True = Some se \<and>
          \<not> UTOP < srcva \<and> srcva mod PGSIZE = 0 \<and> \<not> UTOP < va \<and> va mod PGSIZE = 0 \<and>
          page_lookup (env_pgdir (envs s se)) srcva = Some (pg, pte) \<and>
          (PTE_U OR PTE_P) AND pte = PTE_P OR PTE_U \<and>
          page_insert s e pg va 0 = Some s3
          \<longrightarrow> sys_page_map s srcenvid srcva envid va 0 = (Inr 0, s3))"
proof (intro conjI impI)
  have sub: "(PTE_U OR PTE_P) AND (PTE_U OR PTE_P OR extra) = PTE_U OR PTE_P"
    by (simp add: bit_eq_iff bit_simps) blast
  have nw: "PTE_W AND 0 \<noteq> PTE_W" by (simp add: const_defs)
  show "sys_page_alloc s envid va (PTE_U OR PTE_P OR extra) = (Inr 0, s2)"
    if "\<not> UTOP < va \<and> va mod PGSIZE = 0 \<and> page_alloc s = Some (pag, s1) \<and>
        page_insert (memset_page s1 pag) e pag va (PTE_U OR PTE_P OR extra) = Some s2"
    using that assms sub by (simp add: sys_page_alloc_def)
  show "sys_page_map s srcenvid srcva envid va 0 = (Inr 0, s3)"
    if "envid2env s srcenvid True = Some se \<and>
        \<not> UTOP < srcva \<and> srcva mod PGSIZE = 0 \<and> \<not> UTOP < va \<and> va mod PGSIZE = 0 \<and>
        page_lookup (env_pgdir (envs s se)) srcva = Some (pg, pte) \<and>
        (PTE_U OR PTE_P) AND pte = PTE_P OR PTE_U \<and>
        page_insert s e pg va 0 = Some s3"
    using that assms nw by (simp add: sys_page_map_def)
qed

text \<open>
  The parent allocates at 0x400000 with the bits 0x1F0 on top of present and user, and
  maps its page into the child with the permission 0.
\<close>

lemma demo_alloc_extra_bits:
  "fst (sys_page_alloc (demo [5, 6]) 0x1000 0x400000 (PTE_U OR PTE_P OR 0x1F0)) = Inr 0"
  "page_lookup (env_pgdir (envs (snd (sys_page_alloc (demo [5, 6]) 0x1000 0x400000 (PTE_U OR PTE_P OR 0x1F0))) 0x1000)) 0x400000
     = Some (5, 0x51F5)"
  by (simp_all add: sys_page_alloc_def envid2env_def page_insert_def page_remove_def
      pte_store_def env_update_def page_lookup_def Let_def
      pgdir_walk_create_def page_alloc_def memset_page_def demo_defs const_defs)

lemma demo_map_perm0:
  "fst (sys_page_map (demo [5, 6]) 0x1000 0x800000 0x1001 0x800000 0) = Inr 0"
  "page_lookup (env_pgdir (envs (snd (sys_page_map (demo [5, 6]) 0x1000 0x800000 0x1001 0x800000 0)) 0x1001)) 0x800000
     = Some (3, 0x3001)"
  by (simp_all add: sys_page_map_def envid2env_def page_insert_def page_remove_def
      pte_store_def env_update_def page_lookup_def Let_def descendant.child
      pgdir_walk_create_def page_alloc_def memset_page_def demo_defs const_defs)

theorem permission_bits_not_validated_witness:
  "fst (sys_page_alloc (demo [5, 6]) 0x1000 0x400000 (PTE_U OR PTE_P OR 0x1F0)) = Inr 0 \<and>
   page_lookup (env_pgdir (envs (snd (sys_page_alloc (demo [5, 6]) 0x1000 0x400000 (PTE_U OR PTE_P OR 0x1F0))) 0x1000)) 0x400000
     = Some (5, 0x51F5) \<and>
   fst (sys_page_map (demo [5, 6]) 0x1000 0x800000 0x1001 0x800000 0) = Inr 0 \<and>
   page_lookup (env_pgdir (envs (snd (sys_page_map (demo [5, 6]) 0x1000 0x800000 0x1001 0x800000 0)) 0x1001)) 0x800000
     = Some (3, 0x3001)"
  using permission_bits_not_validated [OF demo_parent_resolves [of "[5, 6]"]]
    permission_bits_not_validated [OF demo_child_resolves [of "[5, 6]"]]
  by (simp add: demo_alloc_extra_bits demo_map_perm0)

text \<open>A handle that never resolves keeps the loop of ipc_send running.\<close>

lemma ipc_send_loop_bad_env:
  assumes inv: "\<forall>t. envid2env t to_env False = None \<longrightarrow> envid2env (yield t) to_env False = None"
    and bad: "envid2env s to_env False = None"
  shows "\<exists>t. ipc_send_loop n yield s to_env val pg perm = Retrying t"
  using bad
proof (induction n arbitrary: s)
  case 0
  then show ?case by simp
next
  case (Suc n)
  from Suc.prems have "sys_ipc_try_send s to_env val pg perm = (Inl E_BAD_ENV, s)"
    by (simp add: sys_ipc_try_send_def)
  moreover from Suc.prems inv have "envid2env (yield s) to_env False = None" by blast
  ultimately show ?case using Suc.IH [of "yield s"] by simp
qed

text \<open>
  Claim C9. What ipc_send does with a result other than receiver-not-ready: a target
  handle that does not resolve, and that the rest of the system leaves so, makes
  sys_ipc_try_send return \<open>-E_BAD_ENV\<close>, and after any number of iterations the loop is
  still retrying. The source has no other exit than a zero result.
\<close>

theorem ipc_send_retries_bad_env:
  assumes "envid2env s to_env False = None"
    and "\<forall>t. envid2env t to_env False = None \<longrightarrow> envid2env (yield t) to_env False = None"
  shows "fst (sys_ipc_try_send s to_env val (if 0 = pg then UTOP else pg) perm) = Inl E_BAD_ENV \<and>
         (\<exists>t. ipc_send n yield s to_env val pg perm = Retrying t)"
proof -
  have "fst (sys_ipc_try_send s to_env val (if 0 = pg then UTOP else pg) perm) = Inl E_BAD_ENV"
    using assms(1) by (simp add: sys_ipc_try_send_def)
  moreover have "\<exists>t. ipc_send n yield s to_env val pg perm = Retrying t"
    unfolding ipc_send_def by (rule ipc_send_loop_bad_env [OF assms(2) assms(1)])
  ultimately show ?thesis by simp
qed

text \<open>The parent sends to the handle 0x2000, which names no environment.\<close>

theorem ipc_send_retries_bad_env_witness:
  "envid2env (demo [5]) 0x2000 False = None \<and>
   fst (sys_ipc_try_send (demo [5]) 0x2000 42 UTOP 0) = Inl E_BAD_ENV \<and>
   (\<exists>t. ipc_send 1000 (\<lambda>t. t) (demo [5]) 0x2000 42 0 0 = Retrying t)"
proof -
  have n: "envid2env (demo [5]) 0x2000 False = None"
    by (simp add: envid2env_def demo_defs)
  have i: "\<forall>t. envid2env t 0x2000 False = None \<longrightarrow> envid2env ((\<lambda>t. t) t) 0x2000 False = None"
    by simp
  from ipc_send_retries_bad_env [OF n i, of 42 0 0 1000] n
  show ?thesis by simp
qed

text \<open>
  Claim C10. What sys_env_set_trapframe does for a target that resolves: it calls
  user_mem_assert on the target with length 0, which checks no page, so no region of the
  caller is validated and the caller is never terminated. The kernel then copies the
  68 bytes of the frame through the pointer itself: the copy faults in the kernel, or
  the frame is copied and the call returns 0.
\<close>

theorem sys_env_set_trapframe_checks_no_memory:
  assumes "envid2env s envid True = Some e"
  shows "sys_env_set_trapframe s envid tf =
           (case kread_tf s tf of
              None \<Rightarrow> KernelFault
            | Some v \<Rightarrow> Return (Inr 0) (env_update s e (\<lambda>x. x\<lparr>env_tf := v\<rparr>)))"
  using assms by (simp add: sys_env_set_trapframe_def user_mem_assert_len0)

text \<open>
  The parent passes as the trapframe for its child 0x400000, where it maps nothing, and
  0x800FE0, where the frame runs from its mapped page into the next one, which is not
  mapped: in both cases the 68 bytes are not readable for the parent, and the call ends
  in a kernel fault.
\<close>

theorem sys_env_set_trapframe_checks_no_memory_witness:
  "envid2env (demo [5]) 0x1001 True = Some 0x1001 \<and>
   \<not> user_mem_check (env_pgdir (envs (demo [5]) (curenv (demo [5])))) 0x400000 68 (PTE_P OR PTE_U) \<and>
   sys_env_set_trapframe (demo [5]) 0x1001 0x400000 = KernelFault \<and>
   \<not> user_mem_check (env_pgdir (envs (demo [5]) (curenv (demo [5])))) 0x800FE0 68 (PTE_P OR PTE_U) \<and>
   sys_env_set_trapframe (demo [5]) 0x1001 0x800FE0 = KernelFault"
proof -
  have u: "\<not> user_mem_check (env_pgdir (envs (demo [5]) (curenv (demo [5])))) 0x400000 68 (PTE_P OR PTE_U)"
    "\<not> user_mem_check (env_pgdir (envs (demo [5]) (curenv (demo [5])))) 0x800FE0 68 (PTE_P OR PTE_U)"
    by (simp_all add: user_mem_check_def range_pages_def page_lookup_def demo_defs const_defs)
  from sys_env_set_trapframe_checks_no_memory [OF demo_child_resolves [of "[5]" True], of "0x400000"]
    sys_env_set_trapframe_checks_no_memory [OF demo_child_resolves [of "[5]" True], of "0x800FE0"]
    u
  show ?thesis by (simp add: demo_child_resolves demo_tf_unmapped demo_tf_straddles)
qed

end
